theory Spec2Isabelle
  imports Complex_Main "HOL-Library.Sublist"
begin

section \<open>JavaScript strings\<close>

text \<open>
  Strings are lists of characters. The model covers ASCII text: \<open>toLowerCase\<close>
  folds the letters A to Z, and the regular-expression class \<open>\s\<close> is read as the six
  ASCII white-space characters.
\<close>

definition isSpace :: "char \<Rightarrow> bool" where
  "isSpace c = (c = CHR '' '' \<or> c = CHR 0x09 \<or> c = CHR 0x0A \<or> c = CHR 0x0B
     \<or> c = CHR 0x0C \<or> c = CHR 0x0D)"

definition toLowerChar :: "char \<Rightarrow> char" where
  "toLowerChar c =
     (if 65 \<le> (of_char c :: nat) \<and> (of_char c :: nat) \<le> 90
      then char_of ((of_char c :: nat) + 32) else c)"

definition toLowerCase :: "string \<Rightarrow> string" where
  "toLowerCase s = map toLowerChar s"

text \<open>\<open>s.startsWith(k)\<close>.\<close>

definition startsWith :: "string \<Rightarrow> string \<Rightarrow> bool" where
  "startsWith s k = prefix k s"

text \<open>\<open>s.includes(k)\<close>: \<open>k\<close> occurs in \<open>s\<close> as a contiguous run.\<close>

fun includes_str :: "string \<Rightarrow> string \<Rightarrow> bool" where
  "includes_str [] k = (k = [])"
| "includes_str (c # cs) k = (startsWith (c # cs) k \<or> includes_str cs k)"

text \<open>\<open>s.trim()\<close>.\<close>

definition trim :: "string \<Rightarrow> string" where
  "trim s = rev (dropWhile isSpace (rev (dropWhile isSpace s)))"

section \<open>JavaScript values\<close>

text \<open>
  A number is a double: a finite value (modelled by the real it denotes), an infinity
  or NaN. Only comparison and maximum are taken of confidences, and both agree on
  doubles and on the reals they denote.
\<close>

datatype jsnum = NaN | NegInf | Fin real | PosInf

datatype jsval =
    JUndefined
  | JNull
  | JBool bool
  | JNum jsnum
  | JStr string
  | JArr "jsval list"
  | JObj "(string \<times> jsval) list"

text \<open>An object is a map from property names to values; an absent property reads as
  \<open>undefined\<close>.\<close>

type_synonym jsobject = "string \<rightharpoonup> jsval"

definition getProp :: "jsobject \<Rightarrow> string \<Rightarrow> jsval" where
  "getProp obj k = (case obj k of None \<Rightarrow> JUndefined | Some v \<Rightarrow> v)"

text \<open>ToBoolean, as the conditions \<open>if (v)\<close>, \<open>!v\<close> and \<open>v && w\<close> apply it.\<close>

fun truthy :: "jsval \<Rightarrow> bool" where
  "truthy JUndefined = False"
| "truthy JNull = False"
| "truthy (JBool b) = b"
| "truthy (JNum NaN) = False"
| "truthy (JNum NegInf) = True"
| "truthy (JNum (Fin r)) = (r \<noteq> 0)"
| "truthy (JNum PosInf) = True"
| "truthy (JStr s) = (s \<noteq> [])"
| "truthy (JArr xs) = True"
| "truthy (JObj ps) = True"

text \<open>\<open>typeof v === "boolean"\<close>.\<close>

fun isBoolean :: "jsval \<Rightarrow> bool" where
  "isBoolean (JBool b) = True"
| "isBoolean v = False"

text \<open>\<open>v == null\<close>: the value is \<open>null\<close> or \<open>undefined\<close>.\<close>

fun isNullish :: "jsval \<Rightarrow> bool" where
  "isNullish JUndefined = True"
| "isNullish JNull = True"
| "isNullish v = False"

text \<open>
  The built-ins of the language that the classifier calls and that are not code of the
  repository: \<open>JSON.parse\<close> on a text that starts with an opening brace (an object,
  or \<open>None\<close> for a SyntaxError), the conversion to a number of a string, an array
  or an object (ToNumber goes through their string form there), and the conversion to
  a string of a finite number, an array or an object (\<open>None\<close> when it throws a
  TypeError, as for an object without a callable \<open>toString\<close> and \<open>valueOf\<close>).
\<close>

record builtins =
  JSON_parse :: "string \<Rightarrow> jsobject option"
  ToNumber_coerce :: "jsval \<Rightarrow> jsnum"
  ToString_coerce :: "jsval \<Rightarrow> string option"

fun ToNumber :: "builtins \<Rightarrow> jsval \<Rightarrow> jsnum" where
  "ToNumber B JUndefined = NaN"
| "ToNumber B JNull = Fin 0"
| "ToNumber B (JBool b) = Fin (if b then 1 else 0)"
| "ToNumber B (JNum n) = n"
| "ToNumber B (JStr s) = ToNumber_coerce B (JStr s)"
| "ToNumber B (JArr xs) = ToNumber_coerce B (JArr xs)"
| "ToNumber B (JObj ps) = ToNumber_coerce B (JObj ps)"

text \<open>ToString, as a template literal applies it to \<open>${v}\<close>.\<close>

fun ToString :: "builtins \<Rightarrow> jsval \<Rightarrow> string option" where
  "ToString B JUndefined = Some ''undefined''"
| "ToString B JNull = Some ''null''"
| "ToString B (JBool b) = Some (if b then ''true'' else ''false'')"
| "ToString B (JNum NaN) = Some ''NaN''"
| "ToString B (JNum NegInf) = Some ''-Infinity''"
| "ToString B (JNum (Fin r)) = ToString_coerce B (JNum (Fin r))"
| "ToString B (JNum PosInf) = Some ''Infinity''"
| "ToString B (JStr s) = Some s"
| "ToString B (JArr xs) = ToString_coerce B (JArr xs)"
| "ToString B (JObj ps) = ToString_coerce B (JObj ps)"

text \<open>
  \<open>error.message\<close> for a caught value: reading a property of \<open>null\<close> or \<open>undefined\<close>
  throws a TypeError (\<open>None\<close>); an object gives the property, or \<open>undefined\<close> when
  it has none; booleans, numbers, strings and arrays have no such property. An Error
  object is an object whose properties include \<open>message\<close>.
\<close>

fun errorMessage :: "jsval \<Rightarrow> jsval option" where
  "errorMessage JUndefined = None"
| "errorMessage JNull = None"
| "errorMessage (JObj ps) =
     Some (case map_of ps ''message'' of None \<Rightarrow> JUndefined | Some m \<Rightarrow> m)"
| "errorMessage v = Some JUndefined"

text \<open>\<open>Math.max\<close> of two numbers: NaN when either is NaN.\<close>

fun Math_max :: "jsnum \<Rightarrow> jsnum \<Rightarrow> jsnum" where
  "Math_max NaN y = NaN"
| "Math_max x NaN = NaN"
| "Math_max PosInf y = PosInf"
| "Math_max x PosInf = PosInf"
| "Math_max NegInf y = y"
| "Math_max x NegInf = x"
| "Math_max (Fin a) (Fin b) = Fin (max a b)"

text \<open>\<open>x >= c\<close> for a number \<open>x\<close> and a finite \<open>c\<close>: false for NaN.\<close>

fun num_ge :: "jsnum \<Rightarrow> real \<Rightarrow> bool" where
  "num_ge NaN c = False"
| "num_ge NegInf c = False"
| "num_ge (Fin a) c = (c \<le> a)"
| "num_ge PosInf c = True"

section \<open>Intent classification: \<open>detectActionIntent\<close>\<close>

subsection \<open>Lenient extraction of the JSON text\<close>

text \<open>\<open>.replace(/```json\s*/g, "")\<close>: every fence opener goes, with the white space
  after it.\<close>

function removeJsonFences :: "string \<Rightarrow> string" where
  "removeJsonFences [] = []"
| "removeJsonFences (c # cs) =
     (if startsWith (c # cs) ''```json''
      then removeJsonFences (dropWhile isSpace (drop 6 cs))
      else c # removeJsonFences cs)"
  by pat_completeness auto
termination
  by (relation "measure length")
    (auto intro: le_less_trans [OF length_dropWhile_le])

text \<open>\<open>.replace(/```\s*$/g, "")\<close>: a closing fence at the very end goes, with the
  white space after it.\<close>

fun removeTrailingFence :: "string \<Rightarrow> string" where
  "removeTrailingFence [] = []"
| "removeTrailingFence (c # cs) =
     (if startsWith (c # cs) ''```'' \<and> list_all isSpace (drop 2 cs) then []
      else c # removeTrailingFence cs)"

text \<open>\<open>.match(/\{[\s\S]*\}/)\<close>: from the first opening brace to the last closing
  brace after it; no match without both.\<close>

definition matchBraces :: "string \<Rightarrow> string option" where
  "matchBraces s =
     (case dropWhile (\<lambda>c. c \<noteq> CHR ''{'') s of
        [] \<Rightarrow> None
      | c # rest \<Rightarrow>
          if CHR ''}'' \<in> set rest
          then Some (c # rev (dropWhile (\<lambda>d. d \<noteq> CHR ''}'') (rev rest)))
          else None)"

text \<open>\<open>.replace(/OR null/g, "null")\<close>.\<close>

fun replaceOrNull :: "string \<Rightarrow> string" where
  "replaceOrNull [] = []"
| "replaceOrNull (c # cs) =
     (if startsWith (c # cs) ''OR null'' then ''null'' @ replaceOrNull (drop 6 cs)
      else c # replaceOrNull cs)"

text \<open>
  \<open>.replace(/:\s*w\s*([,}])/g, ": w$1")\<close> for a literal \<open>w\<close> (\<open>null\<close>, \<open>true\<close>,
  \<open>false\<close>). \<open>matchLiteral w cs\<close> reads, after a colon, white space, \<open>w\<close>, white space
  and a comma or closing brace, and returns that character with the rest.
\<close>

definition matchLiteral :: "string \<Rightarrow> string \<Rightarrow> (char \<times> string) option" where
  "matchLiteral w cs =
     (let r = dropWhile isSpace cs in
      if startsWith r w then
        (case dropWhile isSpace (drop (length w) r) of
           [] \<Rightarrow> None
         | d # ds \<Rightarrow> if d = CHR '','' \<or> d = CHR ''}'' then Some (d, ds) else None)
      else None)"

lemma matchLiteral_length:
  assumes "matchLiteral w cs = Some (d, ds)"
  shows "length ds < length cs"
proof -
  define r where "r = dropWhile isSpace cs"
  define t where "t = dropWhile isSpace (drop (length w) r)"
  have m: "matchLiteral w cs =
      (if startsWith r w then
         (case t of [] \<Rightarrow> None
          | e # es \<Rightarrow> if e = CHR '','' \<or> e = CHR ''}'' then Some (e, es) else None)
       else None)"
    unfolding matchLiteral_def r_def t_def Let_def ..
  have "t = d # ds"
  proof (cases t)
    case Nil
    with assms m show ?thesis by (simp split: if_split_asm)
  next
    case (Cons e es)
    with assms m show ?thesis by (simp split: if_split_asm)
  qed
  then have "Suc (length ds) = length t"
    by simp
  also have "\<dots> \<le> length (drop (length w) r)"
    unfolding t_def by (rule length_dropWhile_le)
  also have "\<dots> \<le> length r"
    by simp
  also have "\<dots> \<le> length cs"
    unfolding r_def by (rule length_dropWhile_le)
  finally show ?thesis by simp
qed

function fixLiteral :: "string \<Rightarrow> string \<Rightarrow> string" where
  "fixLiteral w [] = []"
| "fixLiteral w (c # cs) =
     (if c = CHR '':'' then
        (case matchLiteral w cs of
           None \<Rightarrow> c # fixLiteral w cs
         | Some (d, ds) \<Rightarrow> '': '' @ w @ [d] @ fixLiteral w ds)
      else c # fixLiteral w cs)"
  by pat_completeness auto
termination
  by (relation "measure (\<lambda>(w, s). length s)")
    (auto dest: matchLiteral_length)

text \<open>The text handed to \<open>JSON.parse\<close>, or \<open>None\<close> when the response holds no
  braces (the code throws "No JSON found in response").\<close>

definition extractJson :: "string \<Rightarrow> string option" where
  "extractJson response =
     (case matchBraces (removeTrailingFence (removeJsonFences (trim response))) of
        None \<Rightarrow> None
      | Some jsonStr \<Rightarrow>
          Some (fixLiteral ''false'' (fixLiteral ''true'' (fixLiteral ''null''
            (replaceOrNull jsonStr)))))"

subsection \<open>The keyword tables\<close>

text \<open>The two tables of the heuristic override (the parsed branch).\<close>

definition informationKeywords :: "string list" where
  "informationKeywords =
     [''tell me'', ''what is'', ''what are'', ''what does'', ''how does'', ''why does'',
      ''explain'', ''describe'', ''summarize'', ''which'', ''who'', ''when'', ''where'',
      ''about this page'', ''about the page'', ''most views'', ''most likes'',
      ''most popular'', ''find the'', ''show me the'']"

definition actionKeywords :: "string list" where
  "actionKeywords =
     [''click on'', ''press on'', ''tap on'', ''scroll'', ''type'', ''enter'',
      ''focus on'', ''go back'', ''go forward'', ''make text'', ''make the text'',
      ''text larger'', ''text smaller'', ''text bigger'', ''text size'', ''font size'',
      ''bigger text'', ''smaller text'', ''increase text'', ''decrease text'',
      ''reduce text'', ''reset text'', ''normal text'', ''default text'', ''dark mode'',
      ''light mode'', ''enable dark'', ''disable dark'', ''hide ads'', ''hide sidebar'',
      ''show ads'', ''change background'', ''change color'', ''zoom in'', ''zoom out'',
      ''reset page'', ''reader mode'', ''focus mode'', ''can you make'',
      ''can you change'', ''can you hide'']"

text \<open>The two tables of the fallback (the \<open>catch (parseError)\<close> branch).\<close>

definition fallbackInformationKeywords :: "string list" where
  "fallbackInformationKeywords =
     [''tell me'', ''what is'', ''what are'', ''what does'', ''how does'', ''why does'',
      ''explain'', ''describe'', ''summarize'', ''which'', ''who'', ''when'', ''where'',
      ''about'', ''most views'', ''most likes'', ''most popular'', ''find the'',
      ''show me the'']"

definition fallbackActionKeywords :: "string list" where
  "fallbackActionKeywords =
     [''click on'', ''press on'', ''tap on'', ''scroll'', ''go back'', ''go forward'',
      ''navigate'', ''refresh'', ''reload'', ''type in'', ''type into'', ''focus on'',
      ''make text'', ''make the text'', ''text larger'', ''text smaller'',
      ''text bigger'', ''text size'', ''font size'', ''bigger text'', ''smaller text'',
      ''increase text'', ''decrease text'', ''reduce text'', ''reset text'',
      ''normal text'', ''default text'', ''dark mode'', ''light mode'', ''hide ads'',
      ''change background'', ''change color'', ''zoom in'', ''zoom out'',
      ''can you make'', ''can you change'', ''can you hide'']"

text \<open>\<open>keywords.some((keyword) => lowerInput.includes(keyword))\<close>.\<close>

definition someKeyword :: "string list \<Rightarrow> string \<Rightarrow> bool" where
  "someKeyword keywords lowerInput = list_ex (includes_str lowerInput) keywords"

subsection \<open>The stages\<close>

text \<open>
  The consistency repair: \<open>if (intent.actionType && !intent.isAction)\<close>. The three
  assignments update the parsed object.
\<close>

definition consistencyRepair :: "builtins \<Rightarrow> jsobject \<Rightarrow> jsobject" where
  "consistencyRepair B intent =
     (if truthy (getProp intent ''actionType'') \<and> \<not> truthy (getProp intent ''isAction'')
      then intent
        (''isAction'' \<mapsto> JBool True,
         ''confidence'' \<mapsto>
            JNum (Math_max (ToNumber B (getProp intent ''confidence'')) (Fin 0.8)),
         ''reasoning'' \<mapsto> JStr ''Fixed: actionType detected'')
      else intent)"

text \<open>
  The heuristic override: \<open>if (!intent.isAction)\<close>. An information keyword returns
  the intent as it is; otherwise an action keyword overrides it.
\<close>

definition heuristicOverride :: "builtins \<Rightarrow> string \<Rightarrow> jsobject \<Rightarrow> jsobject" where
  "heuristicOverride B userInput intent =
     (if \<not> truthy (getProp intent ''isAction'') then
        (let lowerInput = toLowerCase userInput;
             isInformationRequest = someKeyword informationKeywords lowerInput;
             hasStrongActionKeyword = someKeyword actionKeywords lowerInput
         in if isInformationRequest then intent
            else if hasStrongActionKeyword then
              intent
                (''isAction'' \<mapsto> JBool True,
                 ''confidence'' \<mapsto>
                    JNum (Math_max (ToNumber B (getProp intent ''confidence'')) (Fin 0.7)),
                 ''reasoning'' \<mapsto> JStr ''Overridden - detected as action via heuristics'')
            else intent)
      else intent)"

text \<open>The fallback of the \<open>catch (parseError)\<close> branch.\<close>

definition isLikelyAction :: "string \<Rightarrow> bool" where
  "isLikelyAction userInput =
     (let lowerInput = toLowerCase userInput;
          isInformationRequest = someKeyword fallbackInformationKeywords lowerInput;
          hasActionKeyword = someKeyword fallbackActionKeywords lowerInput
      in hasActionKeyword \<and> \<not> isInformationRequest)"

definition fallbackIntent :: "string \<Rightarrow> jsobject" where
  "fallbackIntent userInput =
     [''isAction'' \<mapsto> JBool (isLikelyAction userInput),
      ''confidence'' \<mapsto> JNum (Fin 0.3),
      ''actionType'' \<mapsto> JNull,
      ''targetDescription'' \<mapsto> JNull,
      ''additionalData'' \<mapsto> JNull,
      ''reasoning'' \<mapsto> JStr ''Failed to parse AI response, using heuristics'']"

text \<open>The object returned by the outer \<open>catch (error)\<close> branch, for the text that the
  template literal makes of \<open>error.message\<close>.\<close>

definition errorIntent :: "string \<Rightarrow> jsobject" where
  "errorIntent message =
     [''isAction'' \<mapsto> JBool False,
      ''confidence'' \<mapsto> JNum (Fin 0),
      ''actionType'' \<mapsto> JNull,
      ''targetDescription'' \<mapsto> JNull,
      ''additionalData'' \<mapsto> JNull,
      ''reasoning'' \<mapsto> JStr (''Error: '' @ message)]"

subsection \<open>The classifier\<close>

text \<open>
  The call \<open>await this.aiSession.prompt(prompt)\<close> either rejects with a thrown value
  (any value: an Error object, but also \<open>null\<close>, \<open>undefined\<close> or a string) or resolves
  with the response text. The answer of the collaborator is an input of the model: the
  prompt text and the page elements quoted in it only reach the collaborator.
\<close>

datatype prompt_result = Rejects jsval | Resolves string

text \<open>A call of \<open>detectActionIntent\<close> returns an intent, or throws the TypeError raised
  inside its own \<open>catch\<close> block.\<close>

datatype call_result = Returns jsobject | ThrowsTypeError

text \<open>The call returns, and the returned intent has the property.\<close>

definition returnsWith :: "call_result \<Rightarrow> (jsobject \<Rightarrow> bool) \<Rightarrow> bool" where
  "returnsWith r P = (case r of Returns intent \<Rightarrow> P intent | ThrowsTypeError \<Rightarrow> False)"

text \<open>
  The outer \<open>catch (error)\<close> branch: it reads \<open>error.message\<close> and puts it into the
  template literal \<open>`Error: ${error.message}`\<close>; when either throws, nothing catches
  it.
\<close>

definition catchError :: "builtins \<Rightarrow> jsval \<Rightarrow> call_result" where
  "catchError B error =
     (case errorMessage error of
        None \<Rightarrow> ThrowsTypeError
      | Some m \<Rightarrow>
          (case ToString B m of
             None \<Rightarrow> ThrowsTypeError
           | Some message \<Rightarrow> Returns (errorIntent message)))"

definition detectActionIntent :: "builtins \<Rightarrow> string \<Rightarrow> prompt_result \<Rightarrow> call_result" where
  "detectActionIntent B userInput outcome =
     (case outcome of
        Rejects error \<Rightarrow> catchError B error
      | Resolves response \<Rightarrow>
          Returns
            (case extractJson response of
               None \<Rightarrow> fallbackIntent userInput
             | Some jsonStr \<Rightarrow>
                 (case JSON_parse B jsonStr of
                    None \<Rightarrow> fallbackIntent userInput
                  | Some intent \<Rightarrow>
                      if \<not> isBoolean (getProp intent ''isAction'')
                      then fallbackIntent userInput
                      else heuristicOverride B userInput (consistencyRepair B intent))))"


text \<open>
  The object the parse stage hands to the repair stage, when there is one: the response
  resolved, braces were found, \<open>JSON.parse\<close> returned, and \<open>isAction\<close> is a boolean.
\<close>

definition parsedIntent :: "builtins \<Rightarrow> prompt_result \<Rightarrow> jsobject option" where
  "parsedIntent B outcome =
     (case outcome of
        Rejects error \<Rightarrow> None
      | Resolves response \<Rightarrow>
          (case extractJson response of
             None \<Rightarrow> None
           | Some jsonStr \<Rightarrow>
               (case JSON_parse B jsonStr of
                  None \<Rightarrow> None
                | Some intent \<Rightarrow>
                    if isBoolean (getProp intent ''isAction'') then Some intent else None)))"


subsection \<open>A collaborator for the examples\<close>

text \<open>Built-ins whose \<open>JSON.parse\<close> knows one text and the object it denotes, and
  throws on every other text.\<close>

definition parsesTo :: "string \<Rightarrow> jsobject \<Rightarrow> builtins" where
  "parsesTo src obj =
     \<lparr>JSON_parse = (\<lambda>s. if s = src then Some obj else None),
      ToNumber_coerce = (\<lambda>v. NaN),
      ToString_coerce = (\<lambda>v. Some ''[object Object]'')\<rparr>"


section \<open>The element catalog: \<open>ElementDetector\<close>\<close>

subsection \<open>The page\<close>

text \<open>
  A DOM node, with what the detector reads of it: its identity, its tag (the local
  name, in lower case), its attributes, the texts \<open>textContent\<close>, \<open>innerText\<close> and
  \<open>value\<close> (absent on elements without a value), whether an ancestor has
  \<open>role="search"\<close>, the computed style, the size of its bounding rectangle, and the
  label \<open>getInputLabel\<close> finds for it among the other nodes. A document is the list of
  its nodes in document order, the order of \<open>querySelectorAll\<close>.
\<close>

record dom_node =
  nodeId :: nat
  tagName :: string
  attributes :: "(string \<times> string) list"
  textContent :: string
  innerText :: string
  valueProp :: "string option"
  underSearchRole :: bool
  cssDisplay :: string
  cssVisibility :: string
  cssOpacity :: string
  rectWidth :: real
  rectHeight :: real
  inputLabel :: string

definition getAttribute :: "dom_node \<Rightarrow> string \<Rightarrow> string option" where
  "getAttribute n a = map_of (attributes n) a"

text \<open>The reflecting properties \<open>element.id\<close>, \<open>element.className\<close> and
  \<open>element.placeholder\<close>: the attribute, or the empty string.\<close>

definition reflected :: "dom_node \<Rightarrow> string \<Rightarrow> string" where
  "reflected n a = (case getAttribute n a of None \<Rightarrow> [] | Some v \<Rightarrow> v)"

text \<open>\<open>a || b\<close> for a string-valued \<open>a\<close> that may be absent: both the absent value and
  the empty string are falsy.\<close>

definition orElse :: "string option \<Rightarrow> string \<Rightarrow> string" where
  "orElse a b = (case a of None \<Rightarrow> b | Some s \<Rightarrow> if s = [] then b else s)"

subsection \<open>The selectors of the four passes\<close>

text \<open>\<open>[a="v"]\<close> for the attribute \<open>type\<close>, whose value a selector matches without
  regard to case in an HTML document, and \<open>[a*="v" i]\<close>.\<close>

definition attrIs :: "dom_node \<Rightarrow> string \<Rightarrow> string \<Rightarrow> bool" where
  "attrIs n a v = (case getAttribute n a of None \<Rightarrow> False | Some x \<Rightarrow> toLowerCase x = v)"

definition attrContains :: "dom_node \<Rightarrow> string \<Rightarrow> string \<Rightarrow> bool" where
  "attrContains n a v =
     (case getAttribute n a of None \<Rightarrow> False | Some x \<Rightarrow> includes_str (toLowerCase x) v)"

text \<open>\<open>button, input[type="button"], input[type="submit"], [role="button"]\<close>\<close>

definition matchesButton :: "dom_node \<Rightarrow> bool" where
  "matchesButton n =
     (tagName n = ''button''
      \<or> (tagName n = ''input'' \<and> attrIs n ''type'' ''button'')
      \<or> (tagName n = ''input'' \<and> attrIs n ''type'' ''submit'')
      \<or> getAttribute n ''role'' = Some ''button'')"

text \<open>\<open>a[href]\<close>\<close>

definition matchesLink :: "dom_node \<Rightarrow> bool" where
  "matchesLink n = (tagName n = ''a'' \<and> getAttribute n ''href'' \<noteq> None)"

text \<open>\<open>input:not([type="hidden"]):not([type="button"]):not([type="submit"]), textarea\<close>\<close>

definition matchesInput :: "dom_node \<Rightarrow> bool" where
  "matchesInput n =
     ((tagName n = ''input'' \<and> \<not> attrIs n ''type'' ''hidden''
         \<and> \<not> attrIs n ''type'' ''button'' \<and> \<not> attrIs n ''type'' ''submit'')
      \<or> tagName n = ''textarea'')"

text \<open>\<open>input[type="search"], input[name*="search" i], input[id*="search" i],
  input[placeholder*="search" i], input[aria-label*="search" i], [role="search"] input\<close>\<close>

definition matchesSearch :: "dom_node \<Rightarrow> bool" where
  "matchesSearch n =
     (tagName n = ''input''
      \<and> (attrIs n ''type'' ''search''
         \<or> attrContains n ''name'' ''search''
         \<or> attrContains n ''id'' ''search''
         \<or> attrContains n ''placeholder'' ''search''
         \<or> attrContains n ''aria-label'' ''search''
         \<or> underSearchRole n))"

definition querySelectorAll :: "(dom_node \<Rightarrow> bool) \<Rightarrow> dom_node list \<Rightarrow> dom_node list" where
  "querySelectorAll sel document = filter sel document"

subsection \<open>Reading a node\<close>

definition isVisible :: "dom_node \<Rightarrow> bool" where
  "isVisible n =
     (if cssDisplay n = ''none'' \<or> cssVisibility n = ''hidden'' \<or> cssOpacity n = ''0''
      then False
      else if rectWidth n = 0 \<or> rectHeight n = 0 then False
      else True)"

definition getElementText :: "dom_node \<Rightarrow> string" where
  "getElementText n =
     take 100
       (orElse (Some (trim (textContent n)))
       (orElse (Some (trim (innerText n)))
       (orElse (map_option trim (valueProp n))
       (orElse (getAttribute n ''aria-label'')
       (orElse (getAttribute n ''title'')
       (orElse (getAttribute n ''alt'') []))))))"

text \<open>The decimal digits of an index, as the template literal prints it.\<close>

function natToString :: "nat \<Rightarrow> string" where
  "natToString i =
     (if i < 10 then [char_of (48 + i)]
      else natToString (i div 10) @ [char_of (48 + i mod 10)])"
  by pat_completeness auto
termination
  by (relation "measure id") auto

declare natToString.simps [simp del]

text \<open>\<open>.replace(/\s+/g, "_")\<close> and \<open>.replace(/[^a-zA-Z0-9_]/g, "")\<close>.\<close>

fun replaceSpaces :: "string \<Rightarrow> string" where
  "replaceSpaces [] = []"
| "replaceSpaces (c # cs) =
     (if isSpace c then
        (if cs \<noteq> [] \<and> isSpace (hd cs) then replaceSpaces cs
         else CHR ''_'' # replaceSpaces cs)
      else c # replaceSpaces cs)"

definition isWordChar :: "char \<Rightarrow> bool" where
  "isWordChar c =
     (let k = (of_char c :: nat)
      in (97 \<le> k \<and> k \<le> 122) \<or> (65 \<le> k \<and> k \<le> 90) \<or> (48 \<le> k \<and> k \<le> 57) \<or> k = 95)"

text \<open>A decimal digit.\<close>

definition isDigit :: "char \<Rightarrow> bool" where
  "isDigit c = (48 \<le> (of_char c :: nat) \<and> (of_char c :: nat) \<le> 57)"

definition generateUniqueId :: "dom_node \<Rightarrow> string \<Rightarrow> nat \<Rightarrow> string" where
  "generateUniqueId n ty i =
     filter isWordChar
       (replaceSpaces
          (ty @ ''_'' @ reflected n ''id'' @ ''_'' @ reflected n ''class'' @ ''_''
             @ take 20 (getElementText n) @ ''_'' @ natToString i))"

subsection \<open>The catalog\<close>

text \<open>
  A catalog entry: the detected kind (\<open>type\<close>), the node, the display text (on
  buttons and links), the placeholder and label (on inputs and search bars), the
  \<open>aria-label\<close> attribute, \<open>id\<close>, \<open>className\<close> and the unique id. The fields
  \<open>inputType\<close>, \<open>name\<close>, \<open>href\<close> and \<open>position\<close> are carried along by the code and read
  by none of the operations here.
\<close>

record catalog_entry =
  kind :: string
  element :: nat
  displayText :: "string option"
  placeholder :: "string option"
  ariaLabel :: "string option"
  label :: "string option"
  domId :: string
  className :: string
  uniqueId :: string

text \<open>\<open>elements.forEach((element, index) => ...)\<close>: the nodes with their indices.\<close>

definition indexed :: "'a list \<Rightarrow> (nat \<times> 'a) list" where
  "indexed xs = zip [0..<length xs] xs"

definition getAllButtons :: "dom_node list \<Rightarrow> catalog_entry list" where
  "getAllButtons document =
     map (\<lambda>(i, n).
        \<lparr>kind = ''button'', element = nodeId n, displayText = Some (getElementText n),
         placeholder = None, ariaLabel = getAttribute n ''aria-label'', label = None,
         domId = reflected n ''id'', className = reflected n ''class'',
         uniqueId = generateUniqueId n ''button'' i\<rparr>)
       (filter (\<lambda>(i, n). isVisible n) (indexed (querySelectorAll matchesButton document)))"

definition getAllLinks :: "dom_node list \<Rightarrow> catalog_entry list" where
  "getAllLinks document =
     map (\<lambda>(i, n).
        \<lparr>kind = ''link'', element = nodeId n, displayText = Some (getElementText n),
         placeholder = None, ariaLabel = getAttribute n ''aria-label'', label = None,
         domId = reflected n ''id'', className = reflected n ''class'',
         uniqueId = generateUniqueId n ''link'' i\<rparr>)
       (filter (\<lambda>(i, n). isVisible n \<and> \<not> (rectWidth n < 10 \<or> rectHeight n < 10))
          (indexed (querySelectorAll matchesLink document)))"

definition getAllInputs :: "dom_node list \<Rightarrow> catalog_entry list" where
  "getAllInputs document =
     map (\<lambda>(i, n).
        \<lparr>kind = ''input'', element = nodeId n, displayText = None,
         placeholder = Some (reflected n ''placeholder''),
         ariaLabel = getAttribute n ''aria-label'', label = Some (inputLabel n),
         domId = reflected n ''id'', className = reflected n ''class'',
         uniqueId = generateUniqueId n ''input'' i\<rparr>)
       (filter (\<lambda>(i, n). isVisible n) (indexed (querySelectorAll matchesInput document)))"

definition getAllSearchBars :: "dom_node list \<Rightarrow> catalog_entry list" where
  "getAllSearchBars document =
     map (\<lambda>(i, n).
        \<lparr>kind = ''search'', element = nodeId n, displayText = None,
         placeholder = Some (reflected n ''placeholder''),
         ariaLabel = getAttribute n ''aria-label'',
         label = Some (orElse (Some (inputLabel n)) ''Search''),
         domId = reflected n ''id'', className = reflected n ''class'',
         uniqueId = generateUniqueId n ''search'' i\<rparr>)
       (filter (\<lambda>(i, n). isVisible n) (indexed (querySelectorAll matchesSearch document)))"

text \<open>The filter with the set \<open>seen\<close>: the first entry of each unique id stays.\<close>

fun removeDuplicates :: "string list \<Rightarrow> catalog_entry list \<Rightarrow> catalog_entry list" where
  "removeDuplicates seen [] = []"
| "removeDuplicates seen (e # es) =
     (if uniqueId e \<in> set seen then removeDuplicates seen es
      else e # removeDuplicates (uniqueId e # seen) es)"

definition getAllInteractiveElements :: "dom_node list \<Rightarrow> catalog_entry list" where
  "getAllInteractiveElements document =
     (let buttons = getAllButtons document;
          links = getAllLinks document;
          inputs = getAllInputs document;
          searchBars = getAllSearchBars document
      in removeDuplicates [] (searchBars @ buttons @ links @ inputs))"

subsection \<open>The local match score\<close>

text \<open>\<open>description.split(/\s+/)\<close>: the pieces between runs of white space, with an
  empty piece before a leading and after a trailing run.\<close>

fun splitAcc :: "string \<Rightarrow> string \<Rightarrow> string list" where
  "splitAcc acc [] = [rev acc]"
| "splitAcc acc (c # cs) =
     (if isSpace c then
        (if cs \<noteq> [] \<and> isSpace (hd cs) then splitAcc acc cs
         else rev acc # splitAcc [] cs)
      else splitAcc (c # acc) cs)"

definition splitSpaces :: "string \<Rightarrow> string list" where
  "splitSpaces s = splitAcc [] s"

text \<open>\<open>(element.text || element.label || element.placeholder || "").toLowerCase()\<close>\<close>

definition elementText :: "catalog_entry \<Rightarrow> string" where
  "elementText e =
     toLowerCase (orElse (displayText e) (orElse (label e) (orElse (placeholder e) [])))"

text \<open>The loop over the words of the description: 0.1 for each word longer than two
  characters that occurs in the display text.\<close>

definition partialWordMatch :: "string \<Rightarrow> real \<Rightarrow> string list \<Rightarrow> real" where
  "partialWordMatch elemText score ws =
     foldl (\<lambda>s word. if includes_str elemText word \<and> length word > 2 then s + 0.1 else s)
       score ws"

text \<open>
  The score, accumulated in the order of the code. The weights are the decimal
  fractions of the source and the sums are exact.
\<close>

definition calculateMatchScore :: "catalog_entry \<Rightarrow> string \<Rightarrow> real" where
  "calculateMatchScore e description =
     (let score0 = (if includes_str description (kind e) then 0.3 else 0);
          elemText = elementText e;
          score1 =
            (if elemText \<noteq> [] \<and> includes_str description elemText then score0 + 0.5
             else if elemText \<noteq> [] then
               partialWordMatch elemText score0 (splitSpaces description)
             else score0);
          aria = toLowerCase (orElse (ariaLabel e) []);
          score2 =
            (if aria \<noteq> [] \<and> includes_str description aria then score1 + 0.4 else score1);
          ph = toLowerCase (orElse (placeholder e) []);
          score3 = (if ph \<noteq> [] \<and> includes_str description ph then score2 + 0.3 else score2);
          score4 =
            (if kind e = ''search'' \<and> includes_str description ''search'' then score3 + 0.4
             else score3)
      in min score4 1.0)"

text \<open>The number of words of a description that count in the partial match.\<close>

definition matchingWords :: "catalog_entry \<Rightarrow> string \<Rightarrow> nat" where
  "matchingWords e description =
     length (filter (\<lambda>word. includes_str (elementText e) word \<and> length word > 2)
       (splitSpaces description))"

section \<open>The action executor: \<open>ActionExecutor\<close>\<close>

subsection \<open>Elements and the page\<close>

text \<open>
  An element, with what the executor reads and writes of it: \<open>tagName\<close>, the \<open>type\<close>
  property (absent on elements that have none), whether \<open>document.body\<close> contains it,
  its \<open>value\<close>, whether it has the focus, the events dispatched on it, and the three
  style properties of the highlight.
\<close>

record html_element =
  tagNameProp :: string
  typeProp :: "string option"
  inBody :: bool
  valueOf :: string
  focused :: bool
  dispatched :: "string list"
  styleOutline :: string
  styleOutlineOffset :: string
  styleZIndex :: string

record highlighted =
  hlElement :: nat
  originalOutline :: string
  originalOutlineOffset :: string
  originalZIndex :: string

record last_action =
  actionName :: string
  actionElement :: nat
  actionText :: string

text \<open>The page holds the elements by reference; the executor holds \<open>lastAction\<close> and
  \<open>highlightedElement\<close>. Time stamps and timers are left out.\<close>

record world =
  elements :: "nat \<Rightarrow> html_element"
  lastAction :: "last_action option"
  highlightedElement :: "highlighted option"

definition updateElement :: "world \<Rightarrow> nat \<Rightarrow> (html_element \<Rightarrow> html_element) \<Rightarrow> world" where
  "updateElement w a f = w\<lparr>elements := (elements w)(a := f (elements w a))\<rparr>"

subsection \<open>\<open>validateAction\<close>\<close>

record validation =
  safe :: bool
  needsConfirmation :: "bool option"
  reason :: "string option"

definition safeActions :: "string list" where
  "safeActions = [''click'', ''scroll'', ''focus'', ''type'']"

definition validateAction :: "string \<Rightarrow> html_element option \<Rightarrow> validation" where
  \<open>validateAction actionType target =
     (if actionType \<notin> set safeActions then
        \<lparr>safe = False, needsConfirmation = None,
         reason = Some (''Action type "'' @ actionType @ ''" is not whitelisted'')\<rparr>
      else if actionType \<noteq> ''scroll'' \<and> target = None then
        \<lparr>safe = False, needsConfirmation = None, reason = Some ''Target element not found''\<rparr>
      else
        (case target of
           None \<Rightarrow> \<lparr>safe = True, needsConfirmation = None, reason = None\<rparr>
         | Some el \<Rightarrow>
             if \<not> inBody el then
               \<lparr>safe = False, needsConfirmation = None,
                reason = Some ''Element is no longer in document''\<rparr>
             else
               (let tag = toLowerCase (tagNameProp el);
                    ty = map_option toLowerCase (typeProp el)
                in if tag = ''input'' \<and> ty = Some ''file'' then
                     \<lparr>safe = False, needsConfirmation = None,
                      reason = Some ''File inputs are not allowed''\<rparr>
                   else if tag = ''input'' \<and> ty = Some ''password'' then
                     \<lparr>safe = True, needsConfirmation = Some True,
                      reason = Some ''Action involves password field''\<rparr>
                   else if (tag = ''button'' \<and> ty = Some ''submit'')
                        \<or> (tag = ''input'' \<and> ty = Some ''submit'') then
                     \<lparr>safe = True, needsConfirmation = Some True,
                      reason = Some ''Action will submit a form''\<rparr>
                   else \<lparr>safe = True, needsConfirmation = None, reason = None\<rparr>)))\<close>

subsection \<open>\<open>executeType\<close>\<close>

text \<open>
  The calls into the page that may throw inside the \<open>try\<close>. A call that throws has no
  effect.
\<close>

datatype dom_call =
  CallHighlight | CallScrollIntoView | CallFocus | CallSetValue | CallDispatchEvent

type_synonym faults = "dom_call \<Rightarrow> string option"

text \<open>
  The browser and the page, as far as \<open>executeType\<close> meets them and as far as they
  are not code of the repository: which calls throw (with the message of the error);
  what the value setter of an element stores when a text is assigned to
  \<open>element.value\<close> (the value sanitization of the element's type, or the text itself);
  and what the listeners of the page do to the page when an event of a given type
  reaches an element.
\<close>

record browser =
  throwsAt :: faults
  valueSetter :: "html_element \<Rightarrow> string \<Rightarrow> string"
  listeners :: "string \<Rightarrow> nat \<Rightarrow> world \<Rightarrow> world"

datatype action_result = Failed string | Succeeded string string

fun success :: "action_result \<Rightarrow> bool" where
  "success (Failed msg) = False"
| "success (Succeeded act txt) = True"

text \<open>The options read by \<open>executeType\<close>: \<open>highlight\<close> and \<open>clear\<close>, each absent or a
  boolean (\<open>options.delay\<close> only sets the waiting time).\<close>

record type_options =
  highlight :: "bool option"
  clear :: "bool option"

definition removeHighlight :: "world \<Rightarrow> world" where
  "removeHighlight w =
     (case highlightedElement w of
        None \<Rightarrow> w
      | Some h \<Rightarrow>
          (updateElement w (hlElement h)
             (\<lambda>el. el\<lparr>styleOutline := originalOutline h,
                       styleOutlineOffset := originalOutlineOffset h,
                       styleZIndex := originalZIndex h\<rparr>))
          \<lparr>highlightedElement := None\<rparr>)"

definition highlightElement :: "world \<Rightarrow> nat \<Rightarrow> world" where
  "highlightElement w0 a =
     (let w = removeHighlight w0;
          el = elements w a
      in (updateElement w a
            (\<lambda>x. x\<lparr>styleOutline := ''3px solid #FFD700'', styleOutlineOffset := ''2px'',
                     styleZIndex := ''999999''\<rparr>))
         \<lparr>highlightedElement :=
            Some \<lparr>hlElement = a, originalOutline = styleOutline el,
                  originalOutlineOffset = styleOutlineOffset el,
                  originalZIndex = styleZIndex el\<rparr>\<rparr>)"

text \<open>\<open>element.focus()\<close>: the element has the focus, and the focus listeners run.\<close>

definition focusElement :: "browser \<Rightarrow> nat \<Rightarrow> world \<Rightarrow> world" where
  "focusElement E a w = listeners E ''focus'' a (updateElement w a (\<lambda>el. el\<lparr>focused := True\<rparr>))"

text \<open>\<open>element.value = s\<close>: the element holds what its value setter stores for \<open>s\<close>.\<close>

definition assignValue :: "browser \<Rightarrow> nat \<Rightarrow> string \<Rightarrow> world \<Rightarrow> world" where
  "assignValue E a s w = updateElement w a (\<lambda>el. el\<lparr>valueOf := valueSetter E el s\<rparr>)"

text \<open>\<open>element.dispatchEvent(new Event(ev, { bubbles: true }))\<close>: the event is
  dispatched, and the listeners of the page run.\<close>

definition dispatchEvent :: "browser \<Rightarrow> string \<Rightarrow> nat \<Rightarrow> world \<Rightarrow> world" where
  "dispatchEvent E ev a w =
     listeners E ev a (updateElement w a (\<lambda>el. el\<lparr>dispatched := dispatched el @ [ev]\<rparr>))"

text \<open>One call into the page inside the \<open>try\<close>: when it throws, the \<open>catch\<close> returns the
  failure; otherwise its effect happens and the rest runs.\<close>

definition attempt ::
  "faults \<Rightarrow> dom_call \<Rightarrow> (world \<Rightarrow> world) \<Rightarrow> world
     \<Rightarrow> (world \<Rightarrow> action_result \<times> world) \<Rightarrow> action_result \<times> world" where
  "attempt F call effect w rest =
     (case F call of
        Some msg \<Rightarrow> (Failed msg, w)
      | None \<Rightarrow> rest (effect w))"

definition attemptIf ::
  "bool \<Rightarrow> faults \<Rightarrow> dom_call \<Rightarrow> (world \<Rightarrow> world) \<Rightarrow> world
     \<Rightarrow> (world \<Rightarrow> action_result \<times> world) \<Rightarrow> action_result \<times> world" where
  "attemptIf c F call effect w rest = (if c then attempt F call effect w rest else rest w)"

definition executeType ::
  "browser \<Rightarrow> world \<Rightarrow> nat option \<Rightarrow> string \<Rightarrow> type_options \<Rightarrow> action_result \<times> world" where
  "executeType E w target txt options =
     (case target of
        None \<Rightarrow> (Failed ''Element not found'', w)
      | Some a \<Rightarrow>
          attemptIf (highlight options \<noteq> Some False) (throwsAt E) CallHighlight
            (\<lambda>w. highlightElement w a) w (\<lambda>w.
          attempt (throwsAt E) CallScrollIntoView (\<lambda>w. w) w (\<lambda>w.
          attempt (throwsAt E) CallFocus (focusElement E a) w (\<lambda>w.
          attemptIf (clear options \<noteq> Some False) (throwsAt E) CallSetValue
            (assignValue E a []) w (\<lambda>w.
          attempt (throwsAt E) CallSetValue (assignValue E a txt) w (\<lambda>w.
          attempt (throwsAt E) CallDispatchEvent (dispatchEvent E ''input'' a) w (\<lambda>w.
          attempt (throwsAt E) CallDispatchEvent (dispatchEvent E ''change'' a) w (\<lambda>w.
          (Succeeded ''type'' txt,
           w\<lparr>lastAction :=
               Some \<lparr>actionName = ''type'', actionElement = a, actionText = txt\<rparr>\<rparr>)))))))))"

text \<open>The page at the moment the text is assigned, when nothing has thrown before:
  after the highlight (unless switched off) and the focus.\<close>

definition focusedPage :: "browser \<Rightarrow> world \<Rightarrow> nat \<Rightarrow> type_options \<Rightarrow> world" where
  "focusedPage E w a options =
     focusElement E a (if highlight options \<noteq> Some False then highlightElement w a else w)"

section \<open>Example pages and elements\<close>

text \<open>A visible search box, \<open><input type="search" id="q" placeholder="Search products">\<close>,
  alone on its page.\<close>

definition searchBox :: dom_node where
  "searchBox =
     \<lparr>nodeId = 0, tagName = ''input'',
      attributes =
        [(''type'', ''search''), (''id'', ''q''), (''placeholder'', ''Search products'')],
      textContent = [], innerText = [], valueProp = Some [],
      underSearchRole = False, cssDisplay = ''inline-block'', cssVisibility = ''visible'',
      cssOpacity = ''1'', rectWidth = 200, rectHeight = 30,
      inputLabel = ''Search products''\<rparr>"

text \<open>The catalog entry of the search pass for that box.\<close>

definition searchEntry :: catalog_entry where
  "searchEntry =
     \<lparr>kind = ''search'', element = 0, displayText = None,
      placeholder = Some ''Search products'', ariaLabel = None,
      label = Some ''Search products'', domId = ''q'', className = [],
      uniqueId = ''search_q___0''\<rparr>"

text \<open>A button with a long caption.\<close>

definition offerButton :: catalog_entry where
  "offerButton =
     \<lparr>kind = ''button'', element = 0,
      displayText = Some ''Create your free account today and save'',
      placeholder = None, ariaLabel = None, label = None, domId = [], className = [],
      uniqueId = ''button___Create_your_free_acc_0''\<rparr>"

text \<open>A file input and a text input that holds "old", both in the document.\<close>

definition fileInput :: html_element where
  "fileInput =
     \<lparr>tagNameProp = ''INPUT'', typeProp = Some ''file'', inBody = True, valueOf = [],
      focused = False, dispatched = [], styleOutline = [], styleOutlineOffset = [],
      styleZIndex = []\<rparr>"

definition textInput :: html_element where
  "textInput =
     \<lparr>tagNameProp = ''INPUT'', typeProp = Some ''text'', inBody = True, valueOf = ''old'',
      focused = False, dispatched = [], styleOutline = [], styleOutlineOffset = [],
      styleZIndex = []\<rparr>"

definition textInputPage :: world where
  "textInputPage =
     \<lparr>elements = (\<lambda>a. textInput), lastAction = None, highlightedElement = None\<rparr>"

text \<open>
  A browser for the page of text inputs: no call throws, the page has no listeners, and
  the value setter is that of an input of type text (as of type search, tel and
  password), which strips the line feeds and carriage returns from the assigned text.
\<close>

definition stripNewlines :: "string \<Rightarrow> string" where
  "stripNewlines s = filter (\<lambda>c. c \<noteq> CHR 0x0A \<and> c \<noteq> CHR 0x0D) s"

definition textInputBrowser :: browser where
  "textInputBrowser =
     \<lparr>throwsAt = (\<lambda>call. None),
      valueSetter = (\<lambda>el s. stripNewlines s),
      listeners = (\<lambda>ev a w. w)\<rparr>"

section \<open>Properties of the classifier\<close>

subsection \<open>Strings\<close>

lemma includes_str_sublist: "includes_str s k = sublist k s"
  by (induction s) (auto simp: startsWith_def sublist_Cons_right)

lemma includes_str_appendI: "includes_str (a @ m) m"
  by (simp add: includes_str_sublist)

subsection \<open>The return paths\<close>

lemma returnsWith_Returns: "returnsWith (Returns intent) P = P intent"
  by (simp add: returnsWith_def)

lemma returnsWith_cases:
  "returnsWith r P \<Longrightarrow> \<exists>intent. r = Returns intent \<and> P intent"
  by (cases r) (simp_all add: returnsWith_def)


lemma detect_Rejects_cases:
  "detectActionIntent B u (Rejects error) = Returns intent \<Longrightarrow>
     \<exists>message. intent = errorIntent message"
  by (auto simp: detectActionIntent_def catchError_def split: option.splits)

lemma detect_unparsed:
  "parsedIntent B (Resolves r) = None \<Longrightarrow>
     detectActionIntent B u (Resolves r) = Returns (fallbackIntent u)"
  by (auto simp: detectActionIntent_def parsedIntent_def split: option.splits if_splits)

lemma detect_parsed:
  "parsedIntent B outcome = Some i \<Longrightarrow>
     detectActionIntent B u outcome = Returns (heuristicOverride B u (consistencyRepair B i))"
  by (cases outcome)
    (auto simp: detectActionIntent_def parsedIntent_def split: option.splits if_splits)

lemma parsedIntent_isBoolean:
  "parsedIntent B outcome = Some i \<Longrightarrow> isBoolean (getProp i ''isAction'')"
  by (cases outcome) (auto simp: parsedIntent_def split: option.splits if_splits)

lemma isBoolean_cases: "isBoolean v \<Longrightarrow> v = JBool True \<or> v = JBool False"
  by (cases v) auto


lemma repair_invariant:
  assumes "isBoolean (getProp i ''isAction'')"
  shows "truthy (getProp (consistencyRepair B i) ''actionType'') \<Longrightarrow>
         getProp (consistencyRepair B i) ''isAction'' = JBool True"
  using isBoolean_cases [OF assms]
  by (auto simp: consistencyRepair_def getProp_def)

lemma override_invariant:
  assumes "truthy (getProp i ''actionType'') \<Longrightarrow> getProp i ''isAction'' = JBool True"
  shows "truthy (getProp (heuristicOverride B u i) ''actionType'') \<Longrightarrow>
         getProp (heuristicOverride B u i) ''isAction'' = JBool True"
  using assms
  by (auto simp: heuristicOverride_def getProp_def Let_def split: if_splits)

lemma override_information:
  "someKeyword informationKeywords (toLowerCase u) \<Longrightarrow> heuristicOverride B u i = i"
  by (simp add: heuristicOverride_def Let_def)

lemma override_isAction_true:
  "getProp i ''isAction'' = JBool True \<Longrightarrow> heuristicOverride B u i = i"
  by (simp add: heuristicOverride_def)

subsection \<open>The invariant of the returned intent\<close>

text \<open>
  C1 (as amended). On every return path of \<open>detectActionIntent\<close> (parsed, repaired,
  overridden, parse-failure fallback, collaborator error), an intent that the call
  returns and whose \<open>actionType\<close> is truthy has \<open>isAction == true\<close>. The repair tests
  \<open>intent.actionType\<close> for truthiness, so the guarantee is for truthy action types
  (every non-empty string among them), not for every non-null one.
\<close>

theorem actionType_truthy_implies_isAction:
  assumes "detectActionIntent B u outcome = Returns intent"
    and "truthy (getProp intent ''actionType'')"
  shows "getProp intent ''isAction'' = JBool True"
proof (cases outcome)
  case (Rejects error)
  with assms(1) obtain message where "intent = errorIntent message"
    using detect_Rejects_cases by blast
  with assms(2) show ?thesis
    by (simp add: errorIntent_def getProp_def)
next
  case (Resolves r)
  show ?thesis
  proof (cases "parsedIntent B outcome")
    case None
    with Resolves assms(1) have "intent = fallbackIntent u"
      by (simp add: detect_unparsed)
    with assms(2) show ?thesis
      by (simp add: fallbackIntent_def getProp_def)
  next
    case (Some i)
    have "truthy (getProp (consistencyRepair B i) ''actionType'') \<Longrightarrow>
          getProp (consistencyRepair B i) ''isAction'' = JBool True"
      by (rule repair_invariant [OF parsedIntent_isBoolean [OF Some]])
    moreover from assms(1) have "intent = heuristicOverride B u (consistencyRepair B i)"
      by (simp add: detect_parsed [OF Some])
    ultimately show ?thesis
      using override_invariant [of "consistencyRepair B i" B u] assms(2) by simp
  qed
qed

text \<open>The model answers \<open>{"isAction": false, "actionType": "click"}\<close> to "hello": the
  call returns an intent that keeps the action type and is an action.\<close>

theorem actionType_truthy_implies_isAction_witness:
  \<open>returnsWith (detectActionIntent
       (parsesTo ''{"isAction": false, "actionType": "click"}''
          [''isAction'' \<mapsto> JBool False, ''actionType'' \<mapsto> JStr ''click''])
       ''hello'' (Resolves ''{"isAction": false, "actionType": "click"}''))
     (\<lambda>intent. truthy (getProp intent ''actionType'')
        \<and> getProp intent ''isAction'' = JBool True)\<close>
proof -
  have \<open>returnsWith (detectActionIntent
       (parsesTo ''{"isAction": false, "actionType": "click"}''
          [''isAction'' \<mapsto> JBool False, ''actionType'' \<mapsto> JStr ''click''])
       ''hello'' (Resolves ''{"isAction": false, "actionType": "click"}''))
     (\<lambda>intent. truthy (getProp intent ''actionType''))\<close>
    by code_simp
  then obtain intent where r: \<open>detectActionIntent
       (parsesTo ''{"isAction": false, "actionType": "click"}''
          [''isAction'' \<mapsto> JBool False, ''actionType'' \<mapsto> JStr ''click''])
       ''hello'' (Resolves ''{"isAction": false, "actionType": "click"}'') = Returns intent\<close>
    and t: "truthy (getProp intent ''actionType'')"
    using returnsWith_cases by blast
  from actionType_truthy_implies_isAction [OF r t] t show ?thesis
    by (simp add: r returnsWith_Returns)
qed

text \<open>
  The model answers \<open>{"isAction": false, "actionType": ""}\<close> to "hello". The empty
  string is not null and is falsy: the repair leaves the intent alone, no keyword
  matches, and the call returns the intent with a non-null \<open>actionType\<close> and
  \<open>isAction == false\<close>.
\<close>

theorem actionType_nonnull_without_isAction:
  \<open>returnsWith (detectActionIntent
       (parsesTo ''{"isAction": false, "actionType": ""}''
          [''isAction'' \<mapsto> JBool False, ''actionType'' \<mapsto> JStr ''''])
       ''hello'' (Resolves ''{"isAction": false, "actionType": ""}''))
     (\<lambda>intent. \<not> (\<not> isNullish (getProp intent ''actionType'')
        \<longrightarrow> getProp intent ''isAction'' = JBool True))\<close>
  by code_simp

subsection \<open>Information keywords take precedence\<close>

text \<open>
  C2. When the lower-cased utterance contains a keyword of the override stage's
  information table, the override stage, entered with a falsy \<open>isAction\<close>, returns the
  intent as it is, so \<open>isAction\<close> is not true afterwards; when it contains a keyword of
  the fallback's information table, the fallback gives \<open>isAction == false\<close>. Neither
  depends on the action keywords.
\<close>

theorem information_keywords_take_precedence:
  "(someKeyword informationKeywords (toLowerCase u) \<and> \<not> truthy (getProp i ''isAction'')
      \<longrightarrow> heuristicOverride B u i = i
        \<and> getProp (heuristicOverride B u i) ''isAction'' \<noteq> JBool True)
   \<and> (someKeyword fallbackInformationKeywords (toLowerCase u)
      \<longrightarrow> getProp (fallbackIntent u) ''isAction'' = JBool False)"
  by (auto simp: override_information fallbackIntent_def isLikelyAction_def getProp_def Let_def)

text \<open>"can you tell me which button to click on" holds "tell me" and "which", and the
  action keyword "click on" of both stages.\<close>

theorem information_keywords_take_precedence_witness:
  "someKeyword informationKeywords (toLowerCase ''can you tell me which button to click on'')
   \<and> someKeyword actionKeywords (toLowerCase ''can you tell me which button to click on'')
   \<and> someKeyword fallbackInformationKeywords
         (toLowerCase ''can you tell me which button to click on'')
   \<and> someKeyword fallbackActionKeywords
         (toLowerCase ''can you tell me which button to click on'')
   \<and> getProp (heuristicOverride (parsesTo [] Map.empty)
         ''can you tell me which button to click on''
         [''isAction'' \<mapsto> JBool False]) ''isAction'' \<noteq> JBool True
   \<and> getProp (fallbackIntent ''can you tell me which button to click on'') ''isAction''
       = JBool False"
proof -
  have a: "someKeyword informationKeywords
      (toLowerCase ''can you tell me which button to click on'')"
    by code_simp
  have b: "someKeyword actionKeywords
      (toLowerCase ''can you tell me which button to click on'')"
    by code_simp
  have c: "someKeyword fallbackInformationKeywords
      (toLowerCase ''can you tell me which button to click on'')"
    by code_simp
  have d: "someKeyword fallbackActionKeywords
      (toLowerCase ''can you tell me which button to click on'')"
    by code_simp
  have e: "\<not> truthy (getProp [''isAction'' \<mapsto> JBool False] ''isAction'')"
    by (simp add: getProp_def)
  from information_keywords_take_precedence
    [of "''can you tell me which button to click on''" "[''isAction'' \<mapsto> JBool False]"
        "parsesTo [] Map.empty"]
    a b c d e
  show ?thesis by blast
qed

subsection \<open>The utterance "can you tell me which post has the most views"\<close>






subsection \<open>The consistency repair\<close>

text \<open>
  C4 (where the code departs from it). A parsed response with a truthy \<open>actionType\<close>,
  \<open>isAction == false\<close> and no \<open>confidence\<close> field is repaired to \<open>isAction == true\<close>
  with the reasoning overwritten, but \<open>Math.max(undefined, 0.8)\<close> is NaN: the
  confidence of the returned intent is NaN, which is not greater than or equal to 0.8.
\<close>

theorem repair_missing_confidence_is_NaN:
  assumes "parsedIntent B outcome = Some i"
    and "truthy (getProp i ''actionType'')"
    and "getProp i ''isAction'' = JBool False"
    and "getProp i ''confidence'' = JUndefined"
  shows "returnsWith (detectActionIntent B u outcome)
     (\<lambda>intent. getProp intent ''isAction'' = JBool True
        \<and> getProp intent ''confidence'' = JNum NaN
        \<and> \<not> num_ge NaN 0.8
        \<and> getProp intent ''reasoning'' = JStr ''Fixed: actionType detected'')"
proof -
  have r: "getProp (consistencyRepair B i) ''isAction'' = JBool True"
    using assms by (simp add: consistencyRepair_def getProp_def)
  show ?thesis
    using assms
    by (simp add: detect_parsed [OF assms(1)] returnsWith_Returns
          override_isAction_true [OF r])
       (simp add: consistencyRepair_def getProp_def)
qed

text \<open>The model answers \<open>{"isAction": false, "actionType": "click"}\<close> to "press the
  button".\<close>

theorem repair_missing_confidence_is_NaN_witness:
  \<open>returnsWith (detectActionIntent
      (parsesTo ''{"isAction": false, "actionType": "click"}''
         [''isAction'' \<mapsto> JBool False, ''actionType'' \<mapsto> JStr ''click''])
      ''press the button''
      (Resolves ''{"isAction": false, "actionType": "click"}''))
     (\<lambda>intent. getProp intent ''isAction'' = JBool True
        \<and> getProp intent ''confidence'' = JNum NaN)\<close>
proof -
  let ?obj = "[''isAction'' \<mapsto> JBool False, ''actionType'' \<mapsto> JStr ''click'']"
  have e: \<open>extractJson ''{"isAction": false, "actionType": "click"}''
      = Some ''{"isAction": false, "actionType": "click"}''\<close>
    by code_simp
  have p: \<open>parsedIntent (parsesTo ''{"isAction": false, "actionType": "click"}'' ?obj)
      (Resolves ''{"isAction": false, "actionType": "click"}'') = Some ?obj\<close>
    by (simp add: parsedIntent_def e parsesTo_def getProp_def)
  have t: "truthy (getProp ?obj ''actionType'')"
    by (simp add: getProp_def)
  have a: "getProp ?obj ''isAction'' = JBool False"
    by (simp add: getProp_def)
  have c: "getProp ?obj ''confidence'' = JUndefined"
    by (simp add: getProp_def)
  from repair_missing_confidence_is_NaN [OF p t a c, of "''press the button''"]
  show ?thesis
    by (auto dest!: returnsWith_cases simp: returnsWith_Returns)
qed

text \<open>With a numeric confidence the repair does raise it to at least 0.8.\<close>

lemma repair_confidence_number:
  assumes "parsedIntent B outcome = Some i"
    and "truthy (getProp i ''actionType'')"
    and "getProp i ''isAction'' = JBool False"
    and "getProp i ''confidence'' = JNum n" and "n \<noteq> NaN"
  shows "returnsWith (detectActionIntent B u outcome)
     (\<lambda>intent. getProp intent ''isAction'' = JBool True
        \<and> getProp intent ''confidence'' = JNum (Math_max n (Fin 0.8))
        \<and> num_ge (Math_max n (Fin 0.8)) 0.8
        \<and> getProp intent ''reasoning'' = JStr ''Fixed: actionType detected'')"
proof -
  have r: "getProp (consistencyRepair B i) ''isAction'' = JBool True"
    using assms by (simp add: consistencyRepair_def getProp_def)
  have g: "num_ge (Math_max n (Fin 0.8)) 0.8"
    using assms(5) by (cases n) simp_all
  show ?thesis
    using assms g
    by (simp add: detect_parsed [OF assms(1)] returnsWith_Returns
          override_isAction_true [OF r])
       (simp add: consistencyRepair_def getProp_def)
qed

subsection \<open>The parse-failure fallback\<close>

lemma scroll_to_the_bottom_fallback: "isLikelyAction ''scroll to the bottom''"
  by code_simp

text \<open>
  C5. When the response does not parse into an object with a boolean \<open>isAction\<close>, the
  call returns an intent with \<open>isAction\<close> equal to "an action keyword and no
  information keyword occurs in the lower-cased utterance" (the fallback tables),
  confidence 0.3, and \<open>actionType\<close>, \<open>targetDescription\<close> and \<open>additionalData\<close> null; for
  "scroll to the bottom" it is an action with confidence 0.3.
\<close>

theorem parse_failure_fallback:
  assumes "parsedIntent B (Resolves response) = None"
  shows "returnsWith (detectActionIntent B u (Resolves response))
       (\<lambda>intent.
          getProp intent ''isAction'' =
            JBool (someKeyword fallbackActionKeywords (toLowerCase u)
                   \<and> \<not> someKeyword fallbackInformationKeywords (toLowerCase u))
          \<and> getProp intent ''confidence'' = JNum (Fin 0.3)
          \<and> getProp intent ''actionType'' = JNull
          \<and> getProp intent ''targetDescription'' = JNull
          \<and> getProp intent ''additionalData'' = JNull)
     \<and> returnsWith (detectActionIntent B ''scroll to the bottom'' (Resolves response))
       (\<lambda>intent. getProp intent ''isAction'' = JBool True
          \<and> getProp intent ''confidence'' = JNum (Fin 0.3))"
  by (simp add: detect_unparsed [OF assms] returnsWith_Returns fallbackIntent_def
        getProp_def scroll_to_the_bottom_fallback)
     (simp add: isLikelyAction_def Let_def)

text \<open>The model answers in prose, with no braces: nothing reaches \<open>JSON.parse\<close>.\<close>

theorem parse_failure_fallback_witness:
  "returnsWith (detectActionIntent (parsesTo [] Map.empty) ''scroll to the bottom''
      (Resolves ''Sure, I will scroll for you.''))
     (\<lambda>intent. getProp intent ''isAction'' = JBool True
        \<and> getProp intent ''confidence'' = JNum (Fin 0.3)
        \<and> getProp intent ''actionType'' = JNull)"
proof -
  have e: "extractJson ''Sure, I will scroll for you.'' = None"
    by code_simp
  have p: "parsedIntent (parsesTo [] Map.empty) (Resolves ''Sure, I will scroll for you.'')
      = None"
    by (simp add: parsedIntent_def e)
  from parse_failure_fallback [OF p, of "''scroll to the bottom''"]
  show ?thesis
    by (auto dest!: returnsWith_cases simp: returnsWith_Returns)
qed

subsection \<open>An error of the collaborator\<close>




section \<open>Properties of the element catalog\<close>

subsection \<open>Deduplication\<close>

text \<open>The unique id ends with an underscore and the decimal digits of the index, and
  starts with the first letter of the kind it was generated for.\<close>

lemma replaceSpaces_append:
  "s = [] \<or> \<not> isSpace (hd s) \<Longrightarrow> replaceSpaces (X @ s) = replaceSpaces X @ replaceSpaces s"
proof (induction X)
  case Nil
  then show ?case by simp
next
  case (Cons c cs)
  from Cons.prems have "(cs @ s \<noteq> [] \<and> isSpace (hd (cs @ s))) = (cs \<noteq> [] \<and> isSpace (hd cs))"
    by (cases cs) auto
  with Cons show ?case by simp
qed

lemma replaceSpaces_id: "list_all (\<lambda>c. \<not> isSpace c) s \<Longrightarrow> replaceSpaces s = s"
  by (induction s) auto

lemma of_char_digit: "k < 10 \<Longrightarrow> (of_char (char_of (48 + k :: nat)) :: nat) = 48 + k"
  by simp

lemma isDigit_char_of: "k < 10 \<Longrightarrow> isDigit (char_of (48 + k :: nat))"
  by (simp add: isDigit_def)

lemma natToString_digits: "list_all isDigit (natToString i)"
proof (induction i rule: natToString.induct)
  case (1 i)
  show ?case
  proof (cases "i < 10")
    case True
    then show ?thesis by (subst natToString.simps) (simp add: isDigit_char_of)
  next
    case False
    with 1 show ?thesis by (subst natToString.simps) (simp add: isDigit_char_of)
  qed
qed

lemma natToString_value:
  "foldl (\<lambda>acc c. 10 * acc + ((of_char c :: nat) - 48)) 0 (natToString i) = i"
proof (induction i rule: natToString.induct)
  case (1 i)
  show ?case
  proof (cases "i < 10")
    case True
    then show ?thesis by (subst natToString.simps) (simp add: of_char_digit)
  next
    case False
    with 1 show ?thesis by (subst natToString.simps) (simp add: of_char_digit)
  qed
qed

lemma natToString_inj: "natToString i = natToString j \<Longrightarrow> i = j"
  by (metis natToString_value)

lemma isDigit_facts: "isDigit c \<Longrightarrow> \<not> isSpace c \<and> isWordChar c \<and> c \<noteq> CHR ''_''"
  by (auto simp: isDigit_def isSpace_def isWordChar_def)

lemma generateUniqueId_suffix:
  "\<exists>p. generateUniqueId n ty i = p @ ''_'' @ natToString i"
proof -
  let ?D = "natToString i"
  let ?X = "ty @ ''_'' @ reflected n ''id'' @ ''_'' @ reflected n ''class'' @ ''_''
             @ take 20 (getElementText n)"
  have d: "list_all isDigit ?D" by (rule natToString_digits)
  have u: "\<not> isSpace CHR ''_''" "isWordChar CHR ''_''"
    by (simp_all add: isSpace_def isWordChar_def)
  have ns: "list_all (\<lambda>c. \<not> isSpace c) (''_'' @ ?D)"
    using d u by (simp add: list_all_iff isDigit_facts)
  have "filter isWordChar ?D = ?D"
    using d by (simp add: list_all_iff isDigit_facts)
  with u have w: "filter isWordChar (''_'' @ ?D) = ''_'' @ ?D"
    by simp
  have "generateUniqueId n ty i = filter isWordChar (replaceSpaces (?X @ (''_'' @ ?D)))"
    by (simp add: generateUniqueId_def)
  also have "\<dots> = filter isWordChar (replaceSpaces ?X) @ filter isWordChar (replaceSpaces (''_'' @ ?D))"
    using u by (subst replaceSpaces_append) simp_all
  also have "\<dots> = filter isWordChar (replaceSpaces ?X) @ ''_'' @ ?D"
    by (simp only: replaceSpaces_id [OF ns] w)
  finally show ?thesis by blast
qed

lemma digit_suffix_unique:
  assumes "p @ ''_'' @ d1 = q @ ''_'' @ d2" "list_all isDigit d1" "list_all isDigit d2"
  shows "d1 = d2"
proof -
  have u: "\<not> isDigit CHR ''_''"
    by (simp add: isDigit_def)
  have t: "takeWhile isDigit (rev d @ ''_'' @ rev x) = rev d" if "list_all isDigit d" for d x
  proof -
    have "takeWhile isDigit (rev d @ (''_'' @ rev x)) = rev d @ takeWhile isDigit (''_'' @ rev x)"
      using that by (intro takeWhile_append2) (simp add: list_all_iff)
    with u show ?thesis by simp
  qed
  from assms(1) have "rev (p @ ''_'' @ d1) = rev (q @ ''_'' @ d2)" by simp
  then have "rev d1 @ ''_'' @ rev p = rev d2 @ ''_'' @ rev q" by simp
  then have "takeWhile isDigit (rev d1 @ ''_'' @ rev p) = takeWhile isDigit (rev d2 @ ''_'' @ rev q)"
    by simp
  then show ?thesis by (simp only: t [OF assms(2)] t [OF assms(3)] rev_is_rev_conv)
qed

lemma generateUniqueId_index:
  assumes "generateUniqueId n ty i = generateUniqueId n' ty' j"
  shows "i = j"
proof -
  obtain p where p: "generateUniqueId n ty i = p @ ''_'' @ natToString i"
    using generateUniqueId_suffix by blast
  obtain q where q: "generateUniqueId n' ty' j = q @ ''_'' @ natToString j"
    using generateUniqueId_suffix by blast
  from assms p q have "p @ ''_'' @ natToString i = q @ ''_'' @ natToString j" by simp
  then have "natToString i = natToString j"
    by (rule digit_suffix_unique) (rule natToString_digits)+
  then show ?thesis by (rule natToString_inj)
qed


lemma generateUniqueId_hd:
  "k \<in> {''search'', ''button'', ''link'', ''input''} \<Longrightarrow>
     generateUniqueId n k i \<noteq> [] \<and> hd (generateUniqueId n k i) = hd k"
  by (auto simp: generateUniqueId_def isSpace_def isWordChar_def)

lemma removeDuplicates_distinct:
  "distinct (map uniqueId es) \<Longrightarrow> set (map uniqueId es) \<inter> set seen = {} \<Longrightarrow>
     removeDuplicates seen es = es"
  by (induction es arbitrary: seen) auto

lemma indexed_fst: "map fst (indexed xs) = [0..<length xs]"
  by (simp add: indexed_def)

lemma indexed_filter_distinct: "distinct (map fst (filter Q (indexed xs)))"
  by (rule distinct_map_filter) (simp add: indexed_fst)

lemma pass_distinct:
  assumes "\<And>i n. uniqueId (f (i, n)) = generateUniqueId n ty i"
    and df: "distinct (map fst ps)"
  shows "distinct (map uniqueId (map f ps))"
proof -
  from df have d: "distinct ps"
    by (simp add: distinct_map)
  have inj: "inj_on (\<lambda>p. uniqueId (f p)) (set ps)"
  proof (rule inj_onI)
    fix p q
    assume a: "p \<in> set ps" and b: "q \<in> set ps" and e: "uniqueId (f p) = uniqueId (f q)"
    obtain i n where p: "p = (i, n)" by (cases p)
    obtain j m where q: "q = (j, m)" by (cases q)
    from e have "generateUniqueId n ty i = generateUniqueId m ty j"
      by (simp add: p q assms(1))
    then have "i = j" by (rule generateUniqueId_index)
    with a b df have "n = m"
      unfolding p q by (auto dest: eq_key_imp_eq_value)
    with \<open>i = j\<close> show "p = q" by (simp add: p q)
  qed
  have "map uniqueId (map f ps) = map (\<lambda>p. uniqueId (f p)) ps"
    by simp
  with d inj show ?thesis
    by (simp only: distinct_map)
qed

lemma pass_hd:
  assumes "\<And>i n. uniqueId (f (i, n)) = generateUniqueId n ty i"
    and "ty \<in> {''search'', ''button'', ''link'', ''input''}"
    and "e \<in> set (map f ps)"
  shows "hd (uniqueId e) = hd ty"
proof -
  from assms(3) obtain p where "e = f p" by auto
  moreover obtain i n where "p = (i, n)" by (cases p)
  ultimately show ?thesis
    using assms(1) generateUniqueId_hd [OF assms(2), of n i] by simp
qed

lemma searchBars_distinct: "distinct (map uniqueId (getAllSearchBars document))"
  unfolding getAllSearchBars_def
  by (rule pass_distinct [where ty = "''search''"]) (simp_all add: indexed_filter_distinct)

lemma buttons_distinct: "distinct (map uniqueId (getAllButtons document))"
  unfolding getAllButtons_def
  by (rule pass_distinct [where ty = "''button''"]) (simp_all add: indexed_filter_distinct)

lemma links_distinct: "distinct (map uniqueId (getAllLinks document))"
  unfolding getAllLinks_def
  by (rule pass_distinct [where ty = "''link''"]) (simp_all add: indexed_filter_distinct)

lemma inputs_distinct: "distinct (map uniqueId (getAllInputs document))"
  unfolding getAllInputs_def
  by (rule pass_distinct [where ty = "''input''"]) (simp_all add: indexed_filter_distinct)

lemma searchBars_hd: "e \<in> set (getAllSearchBars document) \<Longrightarrow> hd (uniqueId e) = CHR ''s''"
  unfolding getAllSearchBars_def
  by (drule pass_hd [where ty = "''search''", rotated 2]) simp_all

lemma buttons_hd: "e \<in> set (getAllButtons document) \<Longrightarrow> hd (uniqueId e) = CHR ''b''"
  unfolding getAllButtons_def
  by (drule pass_hd [where ty = "''button''", rotated 2]) simp_all

lemma links_hd: "e \<in> set (getAllLinks document) \<Longrightarrow> hd (uniqueId e) = CHR ''l''"
  unfolding getAllLinks_def
  by (drule pass_hd [where ty = "''link''", rotated 2]) simp_all

lemma inputs_hd: "e \<in> set (getAllInputs document) \<Longrightarrow> hd (uniqueId e) = CHR ''i''"
  unfolding getAllInputs_def
  by (drule pass_hd [where ty = "''input''", rotated 2]) simp_all

lemma disjoint_by_hd:
  assumes "\<And>e. e \<in> set xs \<Longrightarrow> hd (uniqueId e) = a"
    and "\<And>e. e \<in> set ys \<Longrightarrow> hd (uniqueId e) = b"
    and "a \<noteq> b"
  shows "uniqueId ` set xs \<inter> uniqueId ` set ys = {}"
proof (rule ccontr)
  assume "uniqueId ` set xs \<inter> uniqueId ` set ys \<noteq> {}"
  then obtain x y where "x \<in> set xs" "y \<in> set ys" "uniqueId x = uniqueId y"
    by auto
  with assms(1) [of x] assms(2) [of y] assms(3) show False by simp
qed

text \<open>
  The filter never removes an entry: the unique ids of one pass differ in their index,
  and those of two passes in their first letter. The catalog is the concatenation of
  the four passes.
\<close>

lemma removeDuplicates_removes_nothing:
  "getAllInteractiveElements document =
     getAllSearchBars document @ getAllButtons document @ getAllLinks document
       @ getAllInputs document"
proof -
  let ?S = "getAllSearchBars document" and ?B = "getAllButtons document"
    and ?L = "getAllLinks document" and ?I = "getAllInputs document"
  have sb: "uniqueId ` set ?S \<inter> uniqueId ` set ?B = {}"
    by (rule disjoint_by_hd [OF searchBars_hd buttons_hd]) simp_all
  have sl: "uniqueId ` set ?S \<inter> uniqueId ` set ?L = {}"
    by (rule disjoint_by_hd [OF searchBars_hd links_hd]) simp_all
  have si: "uniqueId ` set ?S \<inter> uniqueId ` set ?I = {}"
    by (rule disjoint_by_hd [OF searchBars_hd inputs_hd]) simp_all
  have bl: "uniqueId ` set ?B \<inter> uniqueId ` set ?L = {}"
    by (rule disjoint_by_hd [OF buttons_hd links_hd]) simp_all
  have bi: "uniqueId ` set ?B \<inter> uniqueId ` set ?I = {}"
    by (rule disjoint_by_hd [OF buttons_hd inputs_hd]) simp_all
  have li: "uniqueId ` set ?L \<inter> uniqueId ` set ?I = {}"
    by (rule disjoint_by_hd [OF links_hd inputs_hd]) simp_all
  have "distinct (map uniqueId (?S @ ?B @ ?L @ ?I))"
    by (simp add: searchBars_distinct buttons_distinct links_distinct inputs_distinct
        sb sl si bl bi li image_Un Int_Un_distrib Int_Un_distrib2)
  then show ?thesis
    by (simp add: getAllInteractiveElements_def Let_def removeDuplicates_distinct)
qed

lemma indexed_mem:
  assumes "n \<in> set xs"
  shows "\<exists>i. (i, n) \<in> set (indexed xs)"
proof -
  from assms obtain i where i: "i < length xs" "xs ! i = n"
    by (auto simp: in_set_conv_nth)
  then have "(i, n) \<in> set (zip [0..<length xs] xs)"
    by (auto simp: in_set_zip intro!: exI [of _ i])
  then show ?thesis
    by (auto simp: indexed_def)
qed

lemma pass_member:
  assumes "(i, n) \<in> set ps" and "\<And>i n. element (f (i, n)) = nodeId n"
  shows "\<exists>e \<in> set (map f ps). element e = nodeId n"
  by (rule bexI [of _ "f (i, n)"]) (simp_all add: assms)

lemma searchBars_entry:
  assumes "n \<in> set document" "matchesSearch n" "isVisible n"
  shows "\<exists>e \<in> set (getAllSearchBars document). element e = nodeId n"
proof -
  from assms have "n \<in> set (querySelectorAll matchesSearch document)"
    by (simp add: querySelectorAll_def)
  then have "\<exists>i. (i, n) \<in> set (indexed (querySelectorAll matchesSearch document))"
    by (rule indexed_mem)
  then obtain i where "(i, n) \<in> set (indexed (querySelectorAll matchesSearch document))" ..
  with assms(3)
  have "(i, n) \<in> set (filter (\<lambda>(i, n). isVisible n)
      (indexed (querySelectorAll matchesSearch document)))"
    by simp
  then show ?thesis
    unfolding getAllSearchBars_def by (rule pass_member) simp
qed

lemma inputs_entry:
  assumes "n \<in> set document" "matchesInput n" "isVisible n"
  shows "\<exists>e \<in> set (getAllInputs document). element e = nodeId n"
proof -
  from assms have "n \<in> set (querySelectorAll matchesInput document)"
    by (simp add: querySelectorAll_def)
  then have "\<exists>i. (i, n) \<in> set (indexed (querySelectorAll matchesInput document))"
    by (rule indexed_mem)
  then obtain i where "(i, n) \<in> set (indexed (querySelectorAll matchesInput document))" ..
  with assms(3)
  have "(i, n) \<in> set (filter (\<lambda>(i, n). isVisible n)
      (indexed (querySelectorAll matchesInput document)))"
    by simp
  then show ?thesis
    unfolding getAllInputs_def by (rule pass_member) simp
qed

lemma filter_length_pos: "\<exists>x \<in> set xs. P x \<Longrightarrow> 1 \<le> length (filter P xs)"
  by (induction xs) auto

text \<open>Every visible node that the search pass and the input pass both find has at
  least two entries in the catalog.\<close>

lemma search_and_input_entries:
  assumes "n \<in> set document" "isVisible n" "matchesSearch n" "matchesInput n"
  shows "2 \<le> length (filter (\<lambda>e. element e = nodeId n) (getAllInteractiveElements document))"
proof -
  have a: "1 \<le> length (filter (\<lambda>e. element e = nodeId n) (getAllSearchBars document))"
    using searchBars_entry [OF assms(1,3,2)] by (rule filter_length_pos)
  have b: "1 \<le> length (filter (\<lambda>e. element e = nodeId n) (getAllInputs document))"
    using inputs_entry [OF assms(1,4,2)] by (rule filter_length_pos)
  from a b show ?thesis
    by (simp add: removeDuplicates_removes_nothing)
qed

text \<open>
  C7 (where the code departs from it). On the page that holds one visible search box,
  the node is found by the search pass and by the input pass; the two entries get the
  unique ids \<open>search_q___0\<close> and \<open>input_q___0\<close>, the filter removes neither, and the
  catalog holds two entries for the node.
\<close>

theorem search_box_listed_twice:
  "map (\<lambda>e. (kind e, element e, uniqueId e)) (getAllInteractiveElements [searchBox])
     = [(''search'', 0, ''search_q___0''), (''input'', 0, ''input_q___0'')]
   \<and> length (filter (\<lambda>e. element e = nodeId searchBox) (getAllInteractiveElements [searchBox]))
     = 2"
  by code_simp

subsection \<open>The local match score\<close>

lemma includes_str_append_right: "includes_str d x \<Longrightarrow> includes_str (d @ y) x"
  by (auto simp: includes_str_sublist sublist_def) (metis append.assoc)

lemma partialWordMatch_eq:
  "partialWordMatch t s ws =
     s + 0.1 * real (length (filter (\<lambda>word. includes_str t word \<and> length word > 2) ws))"
  unfolding partialWordMatch_def
  by (induction ws arbitrary: s) (auto simp: algebra_simps)

text \<open>
  C8 (as amended). Appending the full display text of an element (as the score reads
  it, in lower case; directly or after a separator) to a description does not
  decrease the score of the element, provided the description already contains the
  display text or at most five of its words count in the partial match (words longer
  than two characters that occur in the display text).
\<close>

theorem appending_display_text_monotone:
  assumes "includes_str d (elementText e) \<or> matchingWords e d \<le> 5"
  shows "calculateMatchScore e d \<le> calculateMatchScore e (d @ sep @ elementText e)"
proof -
  define t where "t = elementText e"
  define d' where "d' = d @ sep @ t"
  have m: "includes_str d' x" if "includes_str d x" for x
    unfolding d'_def using that by (rule includes_str_append_right)
  have it: "includes_str d' t"
    unfolding d'_def using includes_str_appendI [of "d @ sep" t] by simp
  define s0 where "s0 D = (if includes_str D (kind e) then 0.3 else (0::real))" for D
  define s1 where "s1 D =
      (if t \<noteq> [] \<and> includes_str D t then s0 D + 0.5
       else if t \<noteq> [] then partialWordMatch t (s0 D) (splitSpaces D)
       else s0 D)" for D
  define aria where "aria = toLowerCase (orElse (ariaLabel e) [])"
  define s2 where "s2 D =
      (if aria \<noteq> [] \<and> includes_str D aria then s1 D + 0.4 else s1 D)" for D
  define ph where "ph = toLowerCase (orElse (placeholder e) [])"
  define s3 where "s3 D = (if ph \<noteq> [] \<and> includes_str D ph then s2 D + 0.3 else s2 D)" for D
  define s4 where "s4 D =
      (if kind e = ''search'' \<and> includes_str D ''search'' then s3 D + 0.4 else s3 D)" for D
  have c: "calculateMatchScore e D = min (s4 D) 1" for D
    unfolding calculateMatchScore_def Let_def s4_def s3_def s2_def s1_def s0_def
      t_def aria_def ph_def by simp
  have 0: "s0 d \<le> s0 d'"
    using m by (simp add: s0_def)
  have p: "partialWordMatch t (s0 d) (splitSpaces d) \<le> s0 d + 0.5"
    if "matchingWords e d \<le> 5"
  proof -
    from that have "real (matchingWords e d) \<le> 5" by simp
    then show ?thesis
      by (simp add: partialWordMatch_eq matchingWords_def t_def)
  qed
  have 1: "s1 d \<le> s1 d'"
  proof (cases "t = []")
    case True
    with 0 show ?thesis by (simp add: s1_def)
  next
    case False
    then have e1: "s1 d' = s0 d' + 0.5" using it by (simp add: s1_def)
    show ?thesis
    proof (cases "includes_str d t")
      case True
      with False 0 e1 show ?thesis by (simp add: s1_def)
    next
      case nt: False
      with assms have "matchingWords e d \<le> 5" by (simp add: t_def)
      from p [OF this] False nt 0 e1 show ?thesis by (simp add: s1_def)
    qed
  qed
  have 2: "s2 d \<le> s2 d'"
    using 1 m by (simp add: s2_def)
  have 3: "s3 d \<le> s3 d'"
    using 2 m by (simp add: s3_def)
  have 4: "s4 d \<le> s4 d'"
    using 3 m by (simp add: s4_def)
  from 4 have "min (s4 d) 1 \<le> min (s4 d') 1"
    by simp
  then show ?thesis
    by (simp add: c d'_def t_def)
qed

text \<open>The search box and the description "search bar": one word counts, the score is
  0.8, and with the display text appended it is 1.\<close>

theorem appending_display_text_monotone_witness:
  "matchingWords searchEntry ''search bar'' \<le> 5
   \<and> calculateMatchScore searchEntry ''search bar'' = 0.8
   \<and> calculateMatchScore searchEntry (''search bar'' @ '' '' @ elementText searchEntry) = 1
   \<and> calculateMatchScore searchEntry ''search bar''
       \<le> calculateMatchScore searchEntry (''search bar'' @ '' '' @ elementText searchEntry)"
proof -
  have h: "matchingWords searchEntry ''search bar'' \<le> 5"
    by code_simp
  have a: "calculateMatchScore searchEntry ''search bar'' = 0.8"
    by code_simp
  have b: "calculateMatchScore searchEntry (''search bar'' @ '' '' @ elementText searchEntry)
      = 1"
    by code_simp
  from appending_display_text_monotone [OF disjI2 [OF h], of "'' ''"] h a b
  show ?thesis by blast
qed

text \<open>
  The button "Create your free account today and save" and the description "save and
  create your free account today": seven words count, the score is 0.7. With the
  display text appended, after a space or directly, the description contains it and
  the score is 0.5.
\<close>

theorem appending_display_text_decreases:
  "calculateMatchScore offerButton
      (''save and create your free account today'' @ '' '' @ elementText offerButton)
     < calculateMatchScore offerButton ''save and create your free account today''
   \<and> calculateMatchScore offerButton
      (''save and create your free account today'' @ elementText offerButton)
     < calculateMatchScore offerButton ''save and create your free account today''"
  by code_simp

section \<open>Properties of the action executor\<close>

subsection \<open>File inputs are never safe\<close>

text \<open>
  C9. For every action type and every target element that is an input of type "file"
  (its tag name reads "input" and its type reads "file", in any case),
  \<open>validateAction\<close> returns a result with \<open>safe == false\<close>: whether the action type is
  whitelisted or not, and whether the element is still in the document or not.
\<close>

theorem file_input_never_safe:
  assumes "toLowerCase (tagNameProp el) = ''input''"
    and "map_option toLowerCase (typeProp el) = Some ''file''"
  shows "\<not> safe (validateAction actionType (Some el))"
  using assms by (simp add: validateAction_def Let_def)

theorem file_input_never_safe_witness:
  "toLowerCase (tagNameProp fileInput) = ''input''
   \<and> map_option toLowerCase (typeProp fileInput) = Some ''file''
   \<and> \<not> safe (validateAction ''click'' (Some fileInput))
   \<and> \<not> safe (validateAction ''type'' (Some fileInput))
   \<and> \<not> safe (validateAction ''upload'' (Some (fileInput\<lparr>inBody := False\<rparr>)))"
proof -
  have a: "toLowerCase (tagNameProp fileInput) = ''input''"
    by code_simp
  have b: "map_option toLowerCase (typeProp fileInput) = Some ''file''"
    by code_simp
  have a': "toLowerCase (tagNameProp (fileInput\<lparr>inBody := False\<rparr>)) = ''input''"
    by code_simp
  have b': "map_option toLowerCase (typeProp (fileInput\<lparr>inBody := False\<rparr>)) = Some ''file''"
    by code_simp
  from a b file_input_never_safe [OF a b, of "''click''"]
    file_input_never_safe [OF a b, of "''type''"]
    file_input_never_safe [OF a' b', of "''upload''"]
  show ?thesis by blast
qed

subsection \<open>Typing replaces the value\<close>

lemma updateElement_twice:
  "updateElement (updateElement w a f) a g = updateElement w a (\<lambda>el. g (f el))"
  by (simp add: updateElement_def)

lemma elements_updateElement:
  "elements (updateElement w a f) a = f (elements w a)"
  by (simp add: updateElement_def)

lemma assignValue_twice:
  assumes "\<And>el v. valueSetter E (el\<lparr>valueOf := v\<rparr>) txt = valueSetter E el txt"
  shows "assignValue E a txt (assignValue E a s w) = assignValue E a txt w"
  by (simp add: assignValue_def updateElement_twice assms)

lemma attemptIf_clear:
  assumes "\<And>el v. valueSetter E (el\<lparr>valueOf := v\<rparr>) txt = valueSetter E el txt"
  shows "attemptIf c F CallSetValue (assignValue E a []) w
       (\<lambda>w. attempt F CallSetValue (assignValue E a txt) w rest)
     = attempt F CallSetValue (assignValue E a txt) w rest"
  by (cases "F CallSetValue")
    (simp_all add: attemptIf_def attempt_def assignValue_twice [OF assms])

lemma executeType_clear:
  assumes "\<And>el v. valueSetter E (el\<lparr>valueOf := v\<rparr>) txt = valueSetter E el txt"
  shows "executeType E w target txt (options\<lparr>clear := c\<rparr>) = executeType E w target txt options"
  by (cases target) (simp_all add: executeType_def attemptIf_clear [OF assms])

lemma attempt_value:
  assumes "\<And>w. success (fst (rest w)) \<Longrightarrow> valueOf (elements (snd (rest w)) a) = P w"
    and "success (fst (attempt F call effect w rest))"
  shows "valueOf (elements (snd (attempt F call effect w rest)) a) = P (effect w)"
  using assms by (cases "F call") (simp_all add: attempt_def)

lemma attemptIf_value:
  assumes "\<And>w. success (fst (rest w)) \<Longrightarrow> valueOf (elements (snd (rest w)) a) = P w"
    and "success (fst (attemptIf c F call effect w rest))"
  shows "valueOf (elements (snd (attemptIf c F call effect w rest)) a)
     = P (if c then effect w else w)"
  using assms attempt_value [of rest a P F call effect w]
  by (simp add: attemptIf_def split: if_splits)

lemma dispatchEvent_value:
  assumes "\<And>w. valueOf (elements (listeners E ev a w) a) = valueOf (elements w a)"
  shows "valueOf (elements (dispatchEvent E ev a w) a) = valueOf (elements w a)"
  by (simp add: dispatchEvent_def assms elements_updateElement)

text \<open>
  C10 (as amended). For every element, text and options, a successful \<open>executeType\<close>
  leaves the value of the element equal to what the value setter of the element (as
  it is after the highlight and the focus) stores for the text, provided the
  listeners of \<open>input\<close> and \<open>change\<close> leave the value of the element alone and the
  setter does not read the prior value. The prior value is then replaced, never
  appended to, and the result and the final state are the same whatever
  \<open>options.clear\<close> is. The value is the text itself exactly when the setter stores the
  text unchanged.
\<close>

theorem executeType_sets_value:
  assumes ok: "success (fst (executeType E w (Some a) txt options))"
    and inputKeeps:
      "\<And>w. valueOf (elements (listeners E ''input'' a w) a) = valueOf (elements w a)"
    and changeKeeps:
      "\<And>w. valueOf (elements (listeners E ''change'' a w) a) = valueOf (elements w a)"
    and setterReads:
      "\<And>el v. valueSetter E (el\<lparr>valueOf := v\<rparr>) txt = valueSetter E el txt"
  shows "valueOf (elements (snd (executeType E w (Some a) txt options)) a)
       = valueSetter E (elements (focusedPage E w a options) a) txt
    \<and> executeType E w (Some a) txt (options\<lparr>clear := c\<rparr>)
        = executeType E w (Some a) txt options"
proof
  show "executeType E w (Some a) txt (options\<lparr>clear := c\<rparr>)
      = executeType E w (Some a) txt options"
    by (rule executeType_clear [OF setterReads])
  let ?F = "throwsAt E"
  let ?done = "\<lambda>w. (Succeeded ''type'' txt,
      w\<lparr>lastAction :=
          Some \<lparr>actionName = ''type'', actionElement = a, actionText = txt\<rparr>\<rparr>)"
  let ?change = "\<lambda>w. attempt ?F CallDispatchEvent (dispatchEvent E ''change'' a) w ?done"
  let ?input = "\<lambda>w. attempt ?F CallDispatchEvent (dispatchEvent E ''input'' a) w ?change"
  let ?assign = "\<lambda>w. attempt ?F CallSetValue (assignValue E a txt) w ?input"
  let ?focus = "\<lambda>w. attempt ?F CallFocus (focusElement E a) w ?assign"
  let ?scroll = "\<lambda>w. attempt ?F CallScrollIntoView (\<lambda>w. w) w ?focus"
  have d: "valueOf (elements (snd (?done w)) a) = valueOf (elements w a)" for w
    by simp
  have c: "valueOf (elements (snd (?change w)) a) = valueOf (elements w a)"
    if "success (fst (?change w))" for w
    using attempt_value [of ?done a "\<lambda>w. valueOf (elements w a)", OF d that]
    by (simp add: dispatchEvent_value [OF changeKeeps])
  have i: "valueOf (elements (snd (?input w)) a) = valueOf (elements w a)"
    if "success (fst (?input w))" for w
    using attempt_value [of ?change a "\<lambda>w. valueOf (elements w a)", OF c that]
    by (simp add: dispatchEvent_value [OF inputKeeps])
  have s: "valueOf (elements (snd (?assign w)) a) = valueSetter E (elements w a) txt"
    if "success (fst (?assign w))" for w
    using attempt_value [of ?input a "\<lambda>w. valueOf (elements w a)", OF i that]
    by (simp add: assignValue_def elements_updateElement)
  have f: "valueOf (elements (snd (?focus w)) a)
      = valueSetter E (elements (focusElement E a w) a) txt"
    if "success (fst (?focus w))" for w
    by (rule attempt_value [of ?assign a "\<lambda>w. valueSetter E (elements w a) txt", OF s that])
  have r: "valueOf (elements (snd (?scroll w)) a)
      = valueSetter E (elements (focusElement E a w) a) txt"
    if "success (fst (?scroll w))" for w
    by (rule attempt_value
        [of ?focus a "\<lambda>w. valueSetter E (elements (focusElement E a w) a) txt", OF f that])
  have e: "executeType E w (Some a) txt options
      = attemptIf (highlight options \<noteq> Some False) ?F CallHighlight
          (\<lambda>w. highlightElement w a) w ?scroll"
    by (simp add: executeType_def attemptIf_clear [OF setterReads])
  from ok have h: "success (fst (attemptIf (highlight options \<noteq> Some False) ?F
      CallHighlight (\<lambda>w. highlightElement w a) w ?scroll))"
    by (simp only: e)
  have "valueOf (elements (snd (attemptIf (highlight options \<noteq> Some False) ?F
      CallHighlight (\<lambda>w. highlightElement w a) w ?scroll)) a)
      = valueSetter E (elements (focusElement E a
          (if highlight options \<noteq> Some False then highlightElement w a else w)) a) txt"
    using attemptIf_value
      [of ?scroll a "\<lambda>w. valueSetter E (elements (focusElement E a w) a) txt"
        "highlight options \<noteq> Some False" ?F CallHighlight "\<lambda>w. highlightElement w a" w,
        OF r h]
    by simp
  then have "valueOf (elements (snd (executeType E w (Some a) txt options)) a)
      = valueSetter E (elements (focusElement E a
          (if highlight options \<noteq> Some False then highlightElement w a else w)) a) txt"
    by (simp only: e)
  then show "valueOf (elements (snd (executeType E w (Some a) txt options)) a)
      = valueSetter E (elements (focusedPage E w a options) a) txt"
    by (simp add: focusedPage_def)
qed

text \<open>Typing "Krishna" into the text input that holds "old", without clearing: the
  setter stores the text as it is, and the value is "Krishna".\<close>

theorem executeType_sets_value_witness:
  "success (fst (executeType textInputBrowser textInputPage (Some 0) ''Krishna''
       \<lparr>highlight = None, clear = Some False\<rparr>))
   \<and> valueOf (elements textInputPage 0) = ''old''
   \<and> valueOf (elements (snd (executeType textInputBrowser textInputPage (Some 0) ''Krishna''
       \<lparr>highlight = None, clear = Some False\<rparr>)) 0) = ''Krishna''"
proof -
  have h: "success (fst (executeType textInputBrowser textInputPage (Some 0) ''Krishna''
       \<lparr>highlight = None, clear = Some False\<rparr>))"
    by code_simp
  have o: "valueOf (elements textInputPage 0) = ''old''"
    by code_simp
  have k: "\<And>ev w. valueOf (elements (listeners textInputBrowser ev 0 w) 0)
      = valueOf (elements w 0)"
    by (simp add: textInputBrowser_def)
  have r: "\<And>el v. valueSetter textInputBrowser (el\<lparr>valueOf := v\<rparr>) ''Krishna''
      = valueSetter textInputBrowser el ''Krishna''"
    by (simp add: textInputBrowser_def)
  have v: "valueSetter textInputBrowser
      (elements (focusedPage textInputBrowser textInputPage 0
         \<lparr>highlight = None, clear = Some False\<rparr>) 0) ''Krishna'' = ''Krishna''"
    by code_simp
  from executeType_sets_value [OF h k k r] h o v show ?thesis
    by simp
qed

text \<open>
  Typing the two lines "line1" and "line2", separated by a line feed, into the text
  input: the call succeeds, and the value is "line1line2", not the text.
\<close>

theorem executeType_value_is_sanitized:
  "success (fst (executeType textInputBrowser textInputPage (Some 0)
       (''line1'' @ [CHR 0x0A] @ ''line2'') \<lparr>highlight = None, clear = None\<rparr>))
   \<and> valueOf (elements (snd (executeType textInputBrowser textInputPage (Some 0)
       (''line1'' @ [CHR 0x0A] @ ''line2'') \<lparr>highlight = None, clear = None\<rparr>)) 0)
       = ''line1line2''
   \<and> valueOf (elements (snd (executeType textInputBrowser textInputPage (Some 0)
       (''line1'' @ [CHR 0x0A] @ ''line2'') \<lparr>highlight = None, clear = None\<rparr>)) 0)
       \<noteq> ''line1'' @ [CHR 0x0A] @ ''line2''"
  by code_simp

end
